theory Spec2Isabelle
  imports
    Main
    "HOL-Library.List_Lexorder"
    "HOL-Library.Product_Lexorder"
    "HOL-Library.Option_ord"
begin

section \<open>JavaScript strings and values\<close>

text \<open>
  A JavaScript string is a sequence of UTF-16 code units; \<open>length\<close>, \<open>trim\<close>,
  \<open>substring\<close>, \<open>replace\<close> and a regular expression without the \<open>u\<close> flag all work
  on code units. A code unit is modelled by its numeric value (a natural number below
  \<open>0x10000\<close>), a string by the list of its code units.
\<close>

type_synonym code_unit = nat
type_synonym js_string = "code_unit list"

definition lit :: "string \<Rightarrow> js_string" where
  \<comment> \<open>an ASCII literal of the source text\<close>
  "lit s = map of_char s"

text \<open>
  The values a validator can be handed at run time. The TypeScript signatures say
  \<open>string\<close>, but both validators test \<open>typeof\<close> themselves, and a query-string
  parameter is a string, an array of strings (a repeated key) or absent.
\<close>

datatype js_value =
    JSUndefined
  | JSNull
  | JSNumber int
  | JSString js_string
  | JSArray "js_string list"

fun typeof :: "js_value \<Rightarrow> string" where
  "typeof JSUndefined = ''undefined''"
| "typeof JSNull = ''object''"
| "typeof (JSNumber n) = ''number''"
| "typeof (JSString s) = ''string''"
| "typeof (JSArray xs) = ''object''"

fun falsy :: "js_value \<Rightarrow> bool" where
  \<comment> \<open>\<open>!v\<close>\<close>
  "falsy JSUndefined = True"
| "falsy JSNull = True"
| "falsy (JSNumber n) = (n = 0)"
| "falsy (JSString s) = (s = [])"
| "falsy (JSArray xs) = False"

subsection \<open>String.prototype.trim\<close>

definition is_white_space :: "code_unit \<Rightarrow> bool" where
  \<comment> \<open>ECMAScript WhiteSpace and LineTerminator code points\<close>
  "is_white_space c =
     (c = 0x9 \<or> c = 0xA \<or> c = 0xB \<or> c = 0xC \<or> c = 0xD \<or> c = 0x20 \<or> c = 0xA0 \<or>
      c = 0x1680 \<or> (0x2000 \<le> c \<and> c \<le> 0x200A) \<or> c = 0x2028 \<or> c = 0x2029 \<or>
      c = 0x202F \<or> c = 0x205F \<or> c = 0x3000 \<or> c = 0xFEFF)"

definition trim :: "js_string \<Rightarrow> js_string" where
  "trim s = rev (dropWhile is_white_space (rev (dropWhile is_white_space s)))"

subsection \<open>decodeURIComponent\<close>

text \<open>
  The built-in follows the abstract operation Decode of ECMA-262 with an empty set of
  preserved escapes: a code unit other than \<open>%\<close> is copied; \<open>%XY\<close> with a byte below
  \<open>0x80\<close> yields that code unit; a byte with \<open>n\<close> leading one bits, \<open>2 \<le> n \<le> 4\<close>,
  must be followed by \<open>n - 1\<close> further escapes, the \<open>n\<close> octets must be a valid UTF-8
  encoding of a code point, and the code point is appended in UTF-16. Everything else
  throws URIError, which is the value \<open>None\<close> here.
\<close>

definition hex_digit :: "code_unit \<Rightarrow> nat option" where
  "hex_digit c =
     (if 0x30 \<le> c \<and> c \<le> 0x39 then Some (c - 0x30)
      else if 0x41 \<le> c \<and> c \<le> 0x46 then Some (c - 0x41 + 10)
      else if 0x61 \<le> c \<and> c \<le> 0x66 then Some (c - 0x61 + 10)
      else None)"

fun parse_escape :: "js_string \<Rightarrow> (nat \<times> js_string) option" where
  \<comment> \<open>an escape \<open>%XY\<close> at the head: its octet and the rest of the string\<close>
  "parse_escape (p # h # l # rest) =
     (if p = 0x25 then
        (case hex_digit h of
           None \<Rightarrow> None
         | Some a \<Rightarrow> (case hex_digit l of None \<Rightarrow> None | Some b \<Rightarrow> Some (16 * a + b, rest)))
      else None)"
| "parse_escape s = None"

fun continuation_octets :: "nat \<Rightarrow> js_string \<Rightarrow> (nat list \<times> js_string) option" where
  "continuation_octets 0 s = Some ([], s)"
| "continuation_octets (Suc j) s =
     (case parse_escape s of
        None \<Rightarrow> None
      | Some (b, rest) \<Rightarrow>
          (case continuation_octets j rest of
             None \<Rightarrow> None
           | Some (bs, rest') \<Rightarrow> Some (b # bs, rest')))"

definition leading_ones :: "nat \<Rightarrow> nat" where
  \<comment> \<open>the number of leading one bits of an octet\<close>
  "leading_ones b =
     (if b < 0x80 then 0 else if b < 0xC0 then 1 else if b < 0xE0 then 2
      else if b < 0xF0 then 3 else if b < 0xF8 then 4 else 5)"

definition is_continuation :: "nat \<Rightarrow> bool" where
  "is_continuation b = (0x80 \<le> b \<and> b < 0xC0)"

definition scalar_value :: "nat \<Rightarrow> nat \<Rightarrow> bool" where
  \<comment> \<open>a code point that \<open>n\<close> octets may encode: shortest form, no surrogate, in range\<close>
  "scalar_value n v =
     ((if n = 2 then 0x80 \<le> v else if n = 3 then 0x800 \<le> v else 0x10000 \<le> v) \<and>
      v \<le> 0x10FFFF \<and> \<not> (0xD800 \<le> v \<and> v \<le> 0xDFFF))"

fun utf8_code_point :: "nat list \<Rightarrow> nat option" where
  "utf8_code_point [b0, b1] =
     (let v = (b0 - 0xC0) * 0x40 + (b1 - 0x80)
      in if is_continuation b1 \<and> scalar_value 2 v then Some v else None)"
| "utf8_code_point [b0, b1, b2] =
     (let v = (b0 - 0xE0) * 0x1000 + (b1 - 0x80) * 0x40 + (b2 - 0x80)
      in if is_continuation b1 \<and> is_continuation b2 \<and> scalar_value 3 v
         then Some v else None)"
| "utf8_code_point [b0, b1, b2, b3] =
     (let v = (b0 - 0xF0) * 0x40000 + (b1 - 0x80) * 0x1000 + (b2 - 0x80) * 0x40 + (b3 - 0x80)
      in if is_continuation b1 \<and> is_continuation b2 \<and> is_continuation b3 \<and> scalar_value 4 v
         then Some v else None)"
| "utf8_code_point bs = None"

definition utf16_encode :: "nat \<Rightarrow> js_string" where
  "utf16_encode v =
     (if v \<le> 0xFFFF then [v]
      else [(v - 0x10000) div 0x400 + 0xD800, (v - 0x10000) mod 0x400 + 0xDC00])"

lemma parse_escape_shorter:
  "parse_escape s = Some (b, rest) \<Longrightarrow> length rest < length s"
  by (induction s rule: parse_escape.induct) (auto split: if_splits option.splits)

lemma continuation_octets_shorter:
  "continuation_octets j s = Some (bs, rest) \<Longrightarrow> length rest \<le> length s"
proof (induction j arbitrary: s bs rest)
  case 0
  then show ?case by simp
next
  case (Suc j)
  then show ?case
    by (fastforce split: option.splits dest: parse_escape_shorter)
qed

function decodeURIComponent :: "js_string \<Rightarrow> js_string option" where
  "decodeURIComponent [] = Some []"
| "decodeURIComponent (c # cs) =
     (if c \<noteq> 0x25 then map_option ((#) c) (decodeURIComponent cs)
      else
        (case parse_escape (c # cs) of
           None \<Rightarrow> None
         | Some (b, rest) \<Rightarrow>
             (if leading_ones b = 0 then map_option ((#) b) (decodeURIComponent rest)
              else if leading_ones b = 1 \<or> 4 < leading_ones b then None
              else
                (case continuation_octets (leading_ones b - 1) rest of
                   None \<Rightarrow> None
                 | Some (octets, rest') \<Rightarrow>
                     (case utf8_code_point (b # octets) of
                        None \<Rightarrow> None
                      | Some v \<Rightarrow>
                          map_option ((@) (utf16_encode v)) (decodeURIComponent rest'))))))"
  by pat_completeness auto
termination
proof (relation "measure length", goal_cases)
  case 1
  show ?case by simp
next
  case (2 c cs)
  show ?case by simp
next
  case (3 c cs x b rest)
  then show ?case
    using parse_escape_shorter [of "c # cs" b rest] by simp
next
  case (4 c cs x b rest x2 octets rest' v)
  then show ?case
    using parse_escape_shorter [of "c # cs" b rest]
      continuation_octets_shorter [of "leading_ones b - 1" rest octets rest']
    by simp
qed

section \<open>Validation helpers (client/server/index.ts)\<close>

definition MAX_QUERY_LENGTH :: nat where "MAX_QUERY_LENGTH = 200"
definition MAX_ID_LENGTH :: nat where "MAX_ID_LENGTH = 500"
definition MAX_NODES_IN_GRAPH :: nat where "MAX_NODES_IN_GRAPH = 1000"
definition MIN_QUERY_LENGTH :: nat where "MIN_QUERY_LENGTH = 1"

record validation =
  valid :: bool
  sanitized :: js_string
  error :: "js_string option"

definition is_control :: "code_unit \<Rightarrow> bool" where
  \<comment> \<open>the class \<open>[\x00-\x08\x0B-\x0C\x0E-\x1F\x7F]\<close>\<close>
  "is_control c = (c \<le> 0x08 \<or> (0x0B \<le> c \<and> c \<le> 0x0C) \<or> (0x0E \<le> c \<and> c \<le> 0x1F) \<or> c = 0x7F)"

definition strip_control :: "js_string \<Rightarrow> js_string" where
  \<comment> \<open>\<open>s.replace(/[\x00-\x08\x0B-\x0C\x0E-\x1F\x7F]/g, '')\<close>\<close>
  "strip_control s = filter (\<lambda>c. \<not> is_control c) s"

definition escape_like :: "js_string \<Rightarrow> js_string" where
  \<comment> \<open>\<open>s.replace(/[%_]/g, '\\$&')\<close>: a backslash before every \<open>%\<close> and \<open>_\<close>\<close>
  "escape_like s = concat (map (\<lambda>c. if c = 0x25 \<or> c = 0x5F then [0x5C, c] else [c]) s)"

definition id_char :: "code_unit \<Rightarrow> bool" where
  \<comment> \<open>the class \<open>[a-zA-Z0-9:_/@.\-]\<close>\<close>
  "id_char c =
     ((0x61 \<le> c \<and> c \<le> 0x7A) \<or> (0x41 \<le> c \<and> c \<le> 0x5A) \<or> (0x30 \<le> c \<and> c \<le> 0x39) \<or>
      c = 0x3A \<or> c = 0x5F \<or> c = 0x2F \<or> c = 0x40 \<or> c = 0x2E \<or> c = 0x2D)"

definition id_regex_test :: "js_string \<Rightarrow> bool" where
  \<comment> \<open>\<open>/^[a-zA-Z0-9:_/@.\-]+$/.test(s)\<close>\<close>
  "id_regex_test s = (s \<noteq> [] \<and> list_all id_char s)"

definition validateSearchQuery :: "js_value \<Rightarrow> validation" where
  "validateSearchQuery query =
     (case query of
        JSString q \<Rightarrow>
          (let s0 = trim q in
           if length s0 > 0 \<and> length s0 < MIN_QUERY_LENGTH then
             \<lparr>valid = False, sanitized = [],
              error = Some (lit ''Query too short (min 1 character)'')\<rparr>
           else
             (let s1 = (if length s0 > MAX_QUERY_LENGTH then take MAX_QUERY_LENGTH s0 else s0);
                  s2 = strip_control s1;
                  s3 = escape_like s2
              in \<lparr>valid = True, sanitized = s3, error = None\<rparr>))
      | _ \<Rightarrow> \<lparr>valid = False, sanitized = [], error = Some (lit ''Query must be a string'')\<rparr>)"

definition decode_or_raw :: "js_string \<Rightarrow> js_string" where
  \<comment> \<open>\<open>try { sanitized = decodeURIComponent(nodeId) } catch (e) { sanitized = nodeId }\<close>\<close>
  "decode_or_raw raw = (case decodeURIComponent raw of Some d \<Rightarrow> d | None \<Rightarrow> raw)"

definition sanitize_decoded :: "js_string \<Rightarrow> validation" where
  \<comment> \<open>\<open>sanitizeNodeId\<close> from the \<open>trim\<close> on\<close>
  "sanitize_decoded decoded =
     (let s0 = trim decoded in
      if s0 = [] then
        \<lparr>valid = False, sanitized = [], error = Some (lit ''Node ID cannot be empty'')\<rparr>
      else if length s0 > MAX_ID_LENGTH then
        \<lparr>valid = False, sanitized = [],
         error = Some (lit ''Node ID too long (max 500 characters)'')\<rparr>
      else
        (let s1 = strip_control s0 in
         if \<not> id_regex_test s1 then
           \<lparr>valid = False, sanitized = [],
            error = Some (lit ''Node ID contains invalid characters'')\<rparr>
         else \<lparr>valid = True, sanitized = s1, error = None\<rparr>))"

definition sanitizeNodeId :: "js_value \<Rightarrow> validation" where
  "sanitizeNodeId nodeId =
     (if falsy nodeId \<or> typeof nodeId \<noteq> ''string'' then
        \<lparr>valid = False, sanitized = [], error = Some (lit ''Node ID is required'')\<rparr>
      else
        (case nodeId of
           JSString raw \<Rightarrow>
             sanitize_decoded (decode_or_raw raw)
         | _ \<Rightarrow> \<lparr>valid = False, sanitized = [], error = Some (lit ''Node ID is required'')\<rparr>))"

section \<open>The store\<close>

text \<open>
  The handlers read three tables of a read-only SQLite database through prepared
  statements. A table is the list of its rows in scan order; a text column is the
  JavaScript string the driver hands to the handler, a nullable column an \<open>option\<close>.
  The columns \<open>id\<close>, \<open>kind\<close>, \<open>source\<close> and \<open>target\<close> are compared with \<open>=\<close> in every
  statement, so a row where one of them is NULL never matches and is left out of the
  model. A failing statement (the handlers' \<open>catch\<close> branch, status 500) is not modelled.
\<close>

record node_row =
  n_id :: js_string
  n_kind :: js_string
  n_name :: "js_string option"
  n_package :: "js_string option"
  n_file :: "js_string option"
  n_line :: "int option"
  n_end_line :: "int option"
  n_type_info :: "js_string option"

record edge_row =
  e_source :: js_string
  e_target :: js_string
  e_kind :: js_string

record source_file_row =
  s_file :: js_string
  s_content :: js_string

record store =
  db_nodes :: "node_row list"
  db_edges :: "edge_row list"
  db_sources :: "source_file_row list"

definition js_or :: "js_string option \<Rightarrow> js_string \<Rightarrow> js_string" where
  \<comment> \<open>\<open>a || b\<close> for a nullable string \<open>a\<close>: null and the empty string are falsy\<close>
  "js_or a b = (case a of None \<Rightarrow> b | Some s \<Rightarrow> if s = [] then b else s)"

section \<open>GET /function/graph\<close>

subsection \<open>The neighborhood statement\<close>

record neighborhood_row =
  direction :: js_string
  row_id :: js_string
  row_name :: "js_string option"
  row_package :: "js_string option"
  row_file :: "js_string option"
  row_line :: "int option"

definition neighbor :: "string \<Rightarrow> node_row \<Rightarrow> neighborhood_row" where
  \<comment> \<open>\<open>SELECT '<direction>' AS direction, n.id, n.name, n.package, n.file, n.line\<close>\<close>
  "neighbor d n =
     \<lparr>direction = lit d, row_id = n_id n, row_name = n_name n, row_package = n_package n,
      row_file = n_file n, row_line = n_line n\<rparr>"

definition caller_rows :: "store \<Rightarrow> js_string \<Rightarrow> neighborhood_row list" where
  \<comment> \<open>\<open>FROM edges e JOIN nodes n ON n.id = e.source
      WHERE e.target = ? AND e.kind = 'call' AND n.kind = 'function'\<close>\<close>
  "caller_rows db fid =
     [neighbor ''caller'' n. e \<leftarrow> db_edges db, n \<leftarrow> db_nodes db,
        n_id n = e_source e \<and> e_target e = fid \<and> e_kind e = lit ''call'' \<and>
        n_kind n = lit ''function'']"

definition callee_rows :: "store \<Rightarrow> js_string \<Rightarrow> neighborhood_row list" where
  \<comment> \<open>\<open>FROM edges e JOIN nodes n ON n.id = e.target
      WHERE e.source = ? AND e.kind = 'call' AND n.kind = 'function'\<close>\<close>
  "callee_rows db fid =
     [neighbor ''callee'' n. e \<leftarrow> db_edges db, n \<leftarrow> db_nodes db,
        n_id n = e_target e \<and> e_source e = fid \<and> e_kind e = lit ''call'' \<and>
        n_kind n = lit ''function'']"

text \<open>
  \<open>ORDER BY direction, name\<close> sorts ascending under SQLite's default collation BINARY,
  which compares the UTF-8 bytes of two texts; that is the lexicographic order of their
  code points. NULL sorts before every text. The order among rows with equal keys is
  not fixed by SQLite; the model keeps the order of the UNION ALL there.
\<close>

fun code_points :: "js_string \<Rightarrow> nat list" where
  "code_points (h # l # cs) =
     (if 0xD800 \<le> h \<and> h \<le> 0xDBFF \<and> 0xDC00 \<le> l \<and> l \<le> 0xDFFF
      then (0x10000 + (h - 0xD800) * 0x400 + (l - 0xDC00)) # code_points cs
      else h # code_points (l # cs))"
| "code_points cs = cs"

definition order_key :: "neighborhood_row \<Rightarrow> nat list \<times> nat list option" where
  "order_key r = (code_points (direction r), map_option code_points (row_name r))"

definition name_key :: "neighborhood_row \<Rightarrow> nat list option" where
  "name_key r = map_option code_points (row_name r)"

definition neighborhoodStmt :: "store \<Rightarrow> js_string \<Rightarrow> neighborhood_row list" where
  "neighborhoodStmt db fid = sort_key order_key (caller_rows db fid @ callee_rows db fid)"

subsection \<open>The handler\<close>

record graph_node =
  node_id :: js_string
  node_label :: js_string

record graph_edge =
  edge_id :: js_string
  edge_source :: js_string
  edge_target :: js_string

record graph_response =
  resp_nodes :: "graph_node list"
  resp_edges :: "graph_edge list"

datatype graph_reply =
    GraphSent graph_response
  | GraphError nat js_string  \<comment> \<open>\<open>reply.code(status).send({ error })\<close>\<close>

definition functionStmt :: "store \<Rightarrow> js_string \<Rightarrow> node_row option" where
  \<comment> \<open>\<open>SELECT id, name FROM nodes WHERE id = ? AND kind = 'function'\<close>, first row\<close>
  "functionStmt db fid =
     find (\<lambda>n. n_id n = fid \<and> n_kind n = lit ''function'') (db_nodes db)"

definition anyNodeStmt :: "store \<Rightarrow> js_string \<Rightarrow> node_row option" where
  \<comment> \<open>\<open>SELECT id, name, kind FROM nodes WHERE id = ?\<close>, first row\<close>
  "anyNodeStmt db fid = find (\<lambda>n. n_id n = fid) (db_nodes db)"

definition set_add :: "js_string list \<Rightarrow> js_string \<Rightarrow> js_string list" where
  \<comment> \<open>\<open>Set.prototype.add\<close>: a Set keeps its elements in insertion order\<close>
  "set_add s x = (if x \<in> set s then s else s @ [x])"

definition collect_node_ids :: "node_row \<Rightarrow> neighborhood_row list \<Rightarrow> js_string list" where
  \<comment> \<open>\<open>nodeIds.add(functionRow.id); neighborhoodRows.forEach(row => nodeIds.add(row.id));
      Array.from(nodeIds)\<close>\<close>
  "collect_node_ids functionRow rows = foldl set_add (set_add [] (n_id functionRow)) (map row_id rows)"

definition format_nodes :: "node_row \<Rightarrow> neighborhood_row list \<Rightarrow> graph_node list" where
  \<comment> \<open>one \<open>nodes.push\<close> for the function, then one for every neighborhood row\<close>
  "format_nodes functionRow rows =
     \<lparr>node_id = n_id functionRow, node_label = js_or (n_name functionRow) (n_id functionRow)\<rparr> #
     map (\<lambda>row. \<lparr>node_id = row_id row, node_label = js_or (row_name row) (row_id row)\<rparr>) rows"

definition limit_node_ids :: "js_string list \<Rightarrow> js_string list" where
  \<comment> \<open>\<open>if (nodeIdArray.length > MAX_NODES_IN_GRAPH) nodeIdArray.splice(MAX_NODES_IN_GRAPH)\<close>\<close>
  "limit_node_ids nodeIdArray =
     (if length nodeIdArray > MAX_NODES_IN_GRAPH then take MAX_NODES_IN_GRAPH nodeIdArray
      else nodeIdArray)"

definition edgesStmt :: "store \<Rightarrow> js_string list \<Rightarrow> edge_row list" where
  \<comment> \<open>\<open>SELECT e.source, e.target FROM edges e
      WHERE e.kind = 'call' AND e.source IN (...) AND e.target IN (...)\<close>\<close>
  "edgesStmt db nodeIdArray =
     filter (\<lambda>e. e_kind e = lit ''call'' \<and> e_source e \<in> set nodeIdArray \<and>
                 e_target e \<in> set nodeIdArray) (db_edges db)"

fun decimal :: "nat \<Rightarrow> js_string" where
  \<comment> \<open>the digits of an array index inside a template literal\<close>
  "decimal n = (if n < 10 then [0x30 + n] else decimal (n div 10) @ [0x30 + n mod 10])"

declare decimal.simps [simp del]

definition format_edges :: "edge_row list \<Rightarrow> graph_edge list" where
  "format_edges edgeRows =
     map (\<lambda>(index, edge).
            \<lparr>edge_id = lit ''edge-'' @ decimal index, edge_source = e_source edge,
             edge_target = e_target edge\<rparr>)
         (enumerate 0 edgeRows)"

definition validation_error :: "validation \<Rightarrow> string \<Rightarrow> js_string" where
  \<comment> \<open>\<open>validation.error || "<fallback>"\<close>\<close>
  "validation_error v fallback = js_or (error v) (lit fallback)"

definition function_graph_handler :: "store \<Rightarrow> js_value \<Rightarrow> graph_reply" where
  "function_graph_handler db query_id =
     (let rawFunctionId = (if falsy query_id then JSString [] else query_id);
          validation = sanitizeNodeId rawFunctionId
      in if \<not> valid validation then
           GraphError 400 (validation_error validation ''Invalid function ID'')
         else
           (let functionId = sanitized validation;
                neighborhoodRows = neighborhoodStmt db functionId
            in case functionStmt db functionId of
                 None \<Rightarrow>
                   (case anyNodeStmt db functionId of
                      Some anyNode \<Rightarrow>
                        GraphError 400
                          (lit ''Node exists but is not a function (kind: '' @ n_kind anyNode @
                           lit '')'')
                    | None \<Rightarrow> GraphError 404 (lit ''Function not found: '' @ functionId))
               | Some functionRow \<Rightarrow>
                   (let nodeIdArray = collect_node_ids functionRow neighborhoodRows;
                        nodes = format_nodes functionRow neighborhoodRows
                    in if length nodeIdArray = 0 then
                         GraphSent \<lparr>resp_nodes = nodes, resp_edges = []\<rparr>
                       else
                         GraphSent
                           \<lparr>resp_nodes = nodes,
                            resp_edges =
                              format_edges (edgesStmt db (limit_node_ids nodeIdArray))\<rparr>)))"

subsection \<open>Orders of the neighborhood rows\<close>

definition is_caller :: "neighborhood_row \<Rightarrow> bool" where
  "is_caller r = (direction r = lit ''caller'')"

definition is_callee :: "neighborhood_row \<Rightarrow> bool" where
  "is_callee r = (direction r = lit ''callee'')"

definition callers_first :: "neighborhood_row list \<Rightarrow> bool" where
  "callers_first rows = (rows = filter is_caller rows @ filter is_callee rows)"

definition callees_first :: "neighborhood_row list \<Rightarrow> bool" where
  "callees_first rows = (rows = filter is_callee rows @ filter is_caller rows)"

section \<open>GET /source\<close>

datatype node_info =
    ExternalInfo "js_string option" "js_string option" "js_string option"
    \<comment> \<open>\<open>{ name, package, type_info }\<close>\<close>
  | FileInfo "js_string option" "js_string option"
    \<comment> \<open>\<open>{ name, package }\<close>\<close>

record error_body =
  err_error :: js_string
  err_message :: "js_string option"
  err_node_info :: "node_info option"
  err_file :: "js_string option"

record source_row =
  file_name :: js_string
  start_line :: int
  end_line :: int
  code :: js_string

datatype source_reply =
    SourceSent source_row
  | SourceError nat error_body  \<comment> \<open>\<open>reply.code(status).send({ error, ... })\<close>\<close>

definition plain_error :: "js_string \<Rightarrow> error_body" where
  \<comment> \<open>\<open>{ error }\<close>\<close>
  "plain_error e = \<lparr>err_error = e, err_message = None, err_node_info = None, err_file = None\<rparr>"

definition nodeStmt :: "store \<Rightarrow> js_string \<Rightarrow> node_row option" where
  \<comment> \<open>\<open>SELECT ... FROM nodes WHERE id = ?\<close>, first row; \<open>extNodeStmt\<close> and \<open>nodeStmt\<close>
      differ in the columns they select only\<close>
  "nodeStmt db nodeId = find (\<lambda>n. n_id n = nodeId) (db_nodes db)"

definition sourceStmt :: "store \<Rightarrow> js_string \<Rightarrow> source_file_row option" where
  \<comment> \<open>\<open>SELECT content FROM sources WHERE file = ?\<close>, first row\<close>
  "sourceStmt db file = find (\<lambda>s. s_file s = file) (db_sources db)"

fun split_lines :: "js_string \<Rightarrow> js_string list" where
  \<comment> \<open>\<open>content.split('\n')\<close>: never empty, \<open>''.split('\n')\<close> is \<open>['']\<close>\<close>
  "split_lines [] = [[]]"
| "split_lines (c # cs) =
     (if c = 0x0A then [] # split_lines cs
      else (case split_lines cs of [] \<Rightarrow> [[c]] | l # ls \<Rightarrow> (c # l) # ls))"

fun join_lines :: "js_string list \<Rightarrow> js_string" where
  \<comment> \<open>\<open>lines.join('\n')\<close>\<close>
  "join_lines [] = []"
| "join_lines [l] = l"
| "join_lines (l # ls) = l @ [0x0A] @ join_lines ls"

definition js_slice :: "'a list \<Rightarrow> int \<Rightarrow> int \<Rightarrow> 'a list" where
  \<comment> \<open>\<open>Array.prototype.slice(start, fin)\<close>: a negative index counts from the end, both
      indices are clamped to the array\<close>
  "js_slice xs start fin =
     (let len = int (length xs);
          k = (if start < 0 then max (len + start) 0 else min start len);
          final = (if fin < 0 then max (len + fin) 0 else min fin len)
      in take (nat (final - k)) (drop (nat k) xs))"

definition num_or :: "int option \<Rightarrow> int option \<Rightarrow> int option" where
  \<comment> \<open>\<open>a || b\<close> for nullable numbers: null and 0 are falsy\<close>
  "num_or a b = (case a of None \<Rightarrow> b | Some v \<Rightarrow> if v = 0 then b else Some v)"

definition num_or_default :: "int option \<Rightarrow> int \<Rightarrow> int" where
  \<comment> \<open>\<open>a || d\<close> for a nullable number \<open>a\<close> and a number \<open>d\<close>\<close>
  "num_or_default a d = (case a of None \<Rightarrow> d | Some v \<Rightarrow> if v = 0 then d else v)"

definition extract_code :: "node_row \<Rightarrow> js_string \<Rightarrow> js_string \<Rightarrow> source_row" where
  "extract_code node file content =
     (let lines = split_lines content;
          startLine = num_or_default (n_line node) 1 - 1;
          endLine =
            num_or_default (num_or (n_end_line node) (n_line node)) (int (length lines)) - 1;
          code = join_lines (js_slice lines startLine (endLine + 1))
      in \<lparr>file_name = file,
          start_line = num_or_default (n_line node) 1,
          end_line = num_or_default (num_or (n_end_line node) (n_line node)) (int (length lines)),
          code = code\<rparr>)"

definition external_reply :: "node_row option \<Rightarrow> source_reply" where
  "external_reply extNode =
     (case extNode of
        Some row \<Rightarrow>
          SourceError 404
            \<lparr>err_error = lit ''External function - source code not available'',
             err_message =
               Some (lit ''This is an external function from '' @
                     js_or (n_package row) (lit ''standard library'') @
                     lit ''. Source code is not available in the database.''),
             err_node_info = Some (ExternalInfo (n_name row) (n_package row) (n_type_info row)),
             err_file = None\<rparr>
      | None \<Rightarrow> SourceError 404 (plain_error (lit ''External node - source code not available'')))"

definition no_file_reply :: "node_row \<Rightarrow> js_string \<Rightarrow> source_reply" where
  "no_file_reply node nodeId =
     SourceError 404
       \<lparr>err_error = lit ''Source code not available'',
        err_message =
          Some (lit ''Node '' @ [0x22] @ js_or (n_name node) nodeId @ [0x22] @
                lit '' exists but has no file information. This might be a generated or external node.''),
        err_node_info = Some (FileInfo (n_name node) (n_package node)),
        err_file = None\<rparr>"

definition source_handler :: "store \<Rightarrow> js_value \<Rightarrow> source_reply" where
  "source_handler db query_id =
     (let rawNodeId = (if falsy query_id then JSString [] else query_id);
          validation = sanitizeNodeId rawNodeId
      in if \<not> valid validation then
           SourceError 400 (plain_error (validation_error validation ''Invalid node ID''))
         else
           (let nodeId = sanitized validation
            in if take 5 nodeId = lit ''ext::'' then external_reply (nodeStmt db nodeId)
               else
                 (case nodeStmt db nodeId of
                    None \<Rightarrow> SourceError 404 (plain_error (lit ''Node not found''))
                  | Some node \<Rightarrow>
                      (case n_file node of
                         None \<Rightarrow> no_file_reply node nodeId
                       | Some file \<Rightarrow>
                           if file = [] then no_file_reply node nodeId
                           else
                             (case sourceStmt db file of
                                None \<Rightarrow>
                                  SourceError 404
                                    \<lparr>err_error = lit ''Source file not found'',
                                     err_message =
                                       Some (lit ''File '' @ [0x22] @ file @ [0x22] @
                                             lit '' not found in sources table.''),
                                     err_node_info = None,
                                     err_file = Some file\<rparr>
                              | Some source \<Rightarrow>
                                  SourceSent (extract_code node file (s_content source)))))))"

section \<open>Example stores\<close>

definition fn_node :: "string \<Rightarrow> string \<Rightarrow> node_row" where
  "fn_node i nm = \<lparr>n_id = lit i, n_kind = lit ''function'', n_name = Some (lit nm), n_package = None,
     n_file = None, n_line = None, n_end_line = None, n_type_info = None\<rparr>"

definition call_edge :: "string \<Rightarrow> string \<Rightarrow> edge_row" where
  "call_edge a b = \<lparr>e_source = lit a, e_target = lit b, e_kind = lit ''call''\<rparr>"

definition chain_store :: store where
  "chain_store = \<lparr>db_nodes = [fn_node ''f'' ''f'', fn_node ''a'' ''a'', fn_node ''b'' ''b''],
     db_edges = [call_edge ''a'' ''f'', call_edge ''f'' ''b''], db_sources = []\<rparr>"

definition typed_node :: "string \<Rightarrow> string \<Rightarrow> node_row" where
  "typed_node i k = \<lparr>n_id = lit i, n_kind = lit k, n_name = Some (lit i), n_package = None,
     n_file = None, n_line = None, n_end_line = None, n_type_info = None\<rparr>"

definition mutual_store :: store where
  "mutual_store = \<lparr>db_nodes = [fn_node ''f'' ''f'', fn_node ''g'' ''g''],
     db_edges = [call_edge ''f'' ''g'', call_edge ''g'' ''f''], db_sources = []\<rparr>"

definition recursive_store :: store where
  "recursive_store = \<lparr>db_nodes = [fn_node ''f'' ''f''],
     db_edges = [call_edge ''f'' ''f''], db_sources = []\<rparr>"

definition kinds_store :: store where
  "kinds_store = \<lparr>db_nodes = [fn_node ''f'' ''f'', typed_node ''pkg::T'' ''type''],
     db_edges = [], db_sources = []\<rparr>"

definition caller_id :: "nat \<Rightarrow> js_string" where
  "caller_id i = replicate (Suc i) 0x61"

definition plain_function :: "js_string \<Rightarrow> node_row" where
  "plain_function i = \<lparr>n_id = i, n_kind = lit ''function'', n_name = None, n_package = None,
     n_file = None, n_line = None, n_end_line = None, n_type_info = None\<rparr>"

definition fan_in_store :: "nat \<Rightarrow> store" where
  "fan_in_store k =
     \<lparr>db_nodes = plain_function (lit ''f'') # map (\<lambda>i. plain_function (caller_id i)) [0..<k],
      db_edges = map (\<lambda>i. \<lparr>e_source = caller_id i, e_target = lit ''f'', e_kind = lit ''call''\<rparr>) [0..<k],
      db_sources = []\<rparr>"

definition ext_store :: store where
  "ext_store =
     \<lparr>db_nodes =
        [\<lparr>n_id = lit ''ext::fmt.Println'', n_kind = lit ''function'', n_name = Some (lit ''Println''),
          n_package = Some (lit ''fmt''), n_file = None, n_line = None, n_end_line = None,
          n_type_info = Some (lit ''func'')\<rparr>],
      db_edges = [], db_sources = []\<rparr>"

definition empty_store :: store where
  "empty_store = \<lparr>db_nodes = [], db_edges = [], db_sources = []\<rparr>"

definition located_node :: "string \<Rightarrow> int option \<Rightarrow> int option \<Rightarrow> node_row" where
  "located_node i l e =
     \<lparr>n_id = lit i, n_kind = lit ''function'', n_name = Some (lit i), n_package = None,
      n_file = Some (lit ''m.go''), n_line = l, n_end_line = e, n_type_info = None\<rparr>"

definition twenty_lines :: js_string where
  "twenty_lines = lit ''a'' @ [0x0A] @ lit ''b'' @ [0x0A] @ lit ''c'' @ [0x0A] @ lit ''d'' @ [0x0A] @
     lit ''e'' @ [0x0A] @ lit ''f'' @ [0x0A] @ lit ''g'' @ [0x0A] @ lit ''h'' @ [0x0A] @
     lit ''i'' @ [0x0A] @ lit ''j'' @ [0x0A] @ lit ''k'' @ [0x0A] @ lit ''l'' @ [0x0A] @
     lit ''m'' @ [0x0A] @ lit ''n'' @ [0x0A] @ lit ''o'' @ [0x0A] @ lit ''p'' @ [0x0A] @
     lit ''q'' @ [0x0A] @ lit ''r'' @ [0x0A] @ lit ''s'' @ [0x0A] @ lit ''t''"

definition source_store :: store where
  "source_store =
     \<lparr>db_nodes = [located_node ''x'' (Some 10) (Some 12), located_node ''y'' (Some 5) None,
                  located_node ''z'' None None],
      db_edges = [],
      db_sources = [\<lparr>s_file = lit ''m.go'', s_content = twenty_lines\<rparr>]\<rparr>"

section \<open>Properties of the validators\<close>

lemmas validator_defs =
  sanitizeNodeId_def sanitize_decoded_def decode_or_raw_def lit_def trim_def is_white_space_def
  strip_control_def is_control_def id_regex_test_def id_char_def MAX_ID_LENGTH_def
  validateSearchQuery_def MAX_QUERY_LENGTH_def MIN_QUERY_LENGTH_def escape_like_def
  hex_digit_def leading_ones_def is_continuation_def scalar_value_def utf16_encode_def

lemma decode_no_percent: "0x25 \<notin> set s \<Longrightarrow> decodeURIComponent s = Some s"
  by (induction s) auto

lemma id_char_not_percent: "id_char c \<Longrightarrow> c \<noteq> 0x25"
  by (auto simp: id_char_def)

lemma id_char_not_white_space: "id_char c \<Longrightarrow> \<not> is_white_space c"
  by (auto simp: id_char_def is_white_space_def)

lemma id_char_not_control: "id_char c \<Longrightarrow> \<not> is_control c"
  by (auto simp: id_char_def is_control_def)

lemma trim_unchanged:
  assumes "s \<noteq> []" "\<not> is_white_space (hd s)" "\<not> is_white_space (last s)"
  shows "trim s = s"
proof -
  from assms have lead: "dropWhile is_white_space s = s"
    by (cases s) auto
  from assms have trail: "dropWhile is_white_space (rev s) = rev s"
    by (cases "rev s") (auto simp: hd_rev)
  show ?thesis
    unfolding trim_def by (simp add: lead trail)
qed

lemma strip_control_unchanged: "list_all (\<lambda>c. \<not> is_control c) s \<Longrightarrow> strip_control s = s"
  by (simp add: strip_control_def list_all_iff)

lemma length_strip_control: "length (strip_control s) \<le> length s"
  by (simp add: strip_control_def)

lemma sanitize_accepted_id:
  assumes "s \<noteq> []" "list_all id_char s" "length s \<le> MAX_ID_LENGTH"
  shows "sanitizeNodeId (JSString s) = \<lparr>valid = True, sanitized = s, error = None\<rparr>"
proof -
  from assms(2) have no_pct: "0x25 \<notin> set s"
    using id_char_not_percent by (auto simp: list_all_iff)
  then have dec: "decode_or_raw s = s"
    by (simp add: decode_or_raw_def decode_no_percent)
  from assms(1,2) have "id_char (hd s)" "id_char (last s)"
    by (auto simp: list_all_iff)
  then have tr: "trim s = s"
    using assms(1) id_char_not_white_space trim_unchanged by blast
  from assms(2) have st: "strip_control s = s"
    using id_char_not_control by (auto intro!: strip_control_unchanged simp: list_all_iff)
  show ?thesis
    using assms by (simp add: sanitizeNodeId_def sanitize_decoded_def dec tr st id_regex_test_def)
qed

lemma sanitizeNodeId_valid_cases:
  assumes "valid (sanitizeNodeId v)"
  obtains raw where "v = JSString raw" "raw \<noteq> []" "trim (decode_or_raw raw) \<noteq> []"
    "length (trim (decode_or_raw raw)) \<le> MAX_ID_LENGTH"
    "id_regex_test (strip_control (trim (decode_or_raw raw)))"
    "sanitized (sanitizeNodeId v) = strip_control (trim (decode_or_raw raw))"
  using assms
  by (cases v) (auto simp: sanitizeNodeId_def sanitize_decoded_def Let_def split: if_splits)

text \<open>
  Claim C10. \<open>sanitizeNodeId\<close> is idempotent on what it accepts: when it accepts an
  input (of any run-time type) with sanitized output \<open>s\<close>, it accepts the string \<open>s\<close>
  again and returns \<open>s\<close> unchanged. On the way: \<open>s\<close> has no percent sign, is already
  trimmed, has no control character and is at most 500 code units long.
\<close>

theorem sanitizeNodeId_idempotent:
  assumes "valid (sanitizeNodeId v)"
  shows "sanitizeNodeId (JSString (sanitized (sanitizeNodeId v))) =
           \<lparr>valid = True, sanitized = sanitized (sanitizeNodeId v), error = None\<rparr> \<and>
         0x25 \<notin> set (sanitized (sanitizeNodeId v)) \<and>
         trim (sanitized (sanitizeNodeId v)) = sanitized (sanitizeNodeId v) \<and>
         strip_control (sanitized (sanitizeNodeId v)) = sanitized (sanitizeNodeId v) \<and>
         length (sanitized (sanitizeNodeId v)) \<le> MAX_ID_LENGTH"
proof -
  from assms obtain raw where r:
    "trim (decode_or_raw raw) \<noteq> []"
    "length (trim (decode_or_raw raw)) \<le> MAX_ID_LENGTH"
    "id_regex_test (strip_control (trim (decode_or_raw raw)))"
    "sanitized (sanitizeNodeId v) = strip_control (trim (decode_or_raw raw))"
    by (rule sanitizeNodeId_valid_cases)
  define s where "s = sanitized (sanitizeNodeId v)"
  from r have ne: "s \<noteq> []" and ok: "list_all id_char s"
    by (simp_all add: s_def id_regex_test_def)
  from r have len: "length s \<le> MAX_ID_LENGTH"
    using length_strip_control [of "trim (decode_or_raw raw)"] by (simp add: s_def)
  have again: "sanitizeNodeId (JSString s) = \<lparr>valid = True, sanitized = s, error = None\<rparr>"
    using ne ok len by (rule sanitize_accepted_id)
  from ok have no_pct: "0x25 \<notin> set s"
    using id_char_not_percent by (auto simp: list_all_iff)
  from ne ok have "id_char (hd s)" "id_char (last s)"
    by (auto simp: list_all_iff)
  then have tr: "trim s = s"
    using ne id_char_not_white_space trim_unchanged by blast
  from ok have st: "strip_control s = s"
    using id_char_not_control by (auto intro!: strip_control_unchanged simp: list_all_iff)
  show ?thesis
    using again no_pct tr st len unfolding s_def by simp
qed


theorem sanitizeNodeId_idempotent_witness:
  "valid (sanitizeNodeId (JSString (lit ''%20pkg%3A%3Af ''))) \<and>
   sanitized (sanitizeNodeId (JSString (lit ''%20pkg%3A%3Af ''))) = lit ''pkg::f'' \<and>
   sanitizeNodeId (JSString (lit ''pkg::f'')) =
     \<lparr>valid = True, sanitized = lit ''pkg::f'', error = None\<rparr>"
proof -
  have v: "sanitizeNodeId (JSString (lit ''%20pkg%3A%3Af '')) =
      \<lparr>valid = True, sanitized = lit ''pkg::f'', error = None\<rparr>"
    by (simp add: validator_defs)
  then have "valid (sanitizeNodeId (JSString (lit ''%20pkg%3A%3Af '')))" by simp
  from sanitizeNodeId_idempotent [OF this] v show ?thesis by simp
qed

text \<open>
  Claim C9. \<open>validateSearchQuery\<close> never fails on a string: for every string, the empty
  one and strings of any length included, the result is valid, carries no error (so the
  "Query too short" branch is never taken) and its sanitized output is the trimmed term, cut
  to 200 code units, without control characters and with \<open>%\<close> and \<open>_\<close> escaped.
\<close>

theorem validateSearchQuery_total:
  "validateSearchQuery (JSString q) =
     \<lparr>valid = True,
      sanitized = escape_like (strip_control (take MAX_QUERY_LENGTH (trim q))),
      error = None\<rparr>"
  by (simp add: validateSearchQuery_def MIN_QUERY_LENGTH_def Let_def)

theorem validateSearchQuery_total_witness:
  "validateSearchQuery (JSString []) = \<lparr>valid = True, sanitized = [], error = None\<rparr> \<and>
   validateSearchQuery (JSString (lit ''test%query'')) =
     \<lparr>valid = True, sanitized = lit ''test'' @ [0x5C] @ lit ''%query'', error = None\<rparr>"
  using validateSearchQuery_total [of "[]"] validateSearchQuery_total [of "lit ''test%query''"]
  by (simp add: validator_defs)

lemma concat_replicate_single: "concat (replicate n [x]) = replicate n x"
  by (induction n) auto

lemma long_query: "trim (replicate 201 0x61) = replicate 201 0x61"
  by (rule trim_unchanged) (simp_all add: is_white_space_def)

text \<open>
  Claim C4 as stated (a term longer than 200 code units after trimming is rejected) fails:
  a term of 201 letters \<open>a\<close> is valid, and its sanitized output is the first 200 of them.
\<close>

theorem validateSearchQuery_too_long_counterexample:
  "MAX_QUERY_LENGTH < length (trim (replicate 201 0x61)) \<and>
   validateSearchQuery (JSString (replicate 201 0x61)) =
     \<lparr>valid = True, sanitized = replicate 200 0x61, error = None\<rparr>"
  by (simp add: validateSearchQuery_def long_query MAX_QUERY_LENGTH_def MIN_QUERY_LENGTH_def
      strip_control_def is_control_def escape_like_def concat_replicate_single)

text \<open>
  Claim C4, amended. A string search term whose length after trimming exceeds 200 code
  units is accepted: validation succeeds with no error, on exactly the first 200 code units
  of the trimmed term (control characters removed and wildcards escaped afterwards).
\<close>

theorem validateSearchQuery_truncates:
  assumes "MAX_QUERY_LENGTH < length (trim q)"
  shows "validateSearchQuery (JSString q) =
     \<lparr>valid = True,
      sanitized = escape_like (strip_control (take MAX_QUERY_LENGTH (trim q))),
      error = None\<rparr> \<and>
     length (take MAX_QUERY_LENGTH (trim q)) = MAX_QUERY_LENGTH"
  using assms by (simp add: validateSearchQuery_def MIN_QUERY_LENGTH_def Let_def)

theorem validateSearchQuery_truncates_witness:
  "MAX_QUERY_LENGTH < length (trim (replicate 250 0x5F)) \<and>
   validateSearchQuery (JSString (replicate 250 0x5F)) =
     \<lparr>valid = True, sanitized = concat (replicate 200 [0x5C, 0x5F]), error = None\<rparr>"
proof -
  have t: "trim (replicate 250 0x5F) = replicate 250 0x5F"
    by (rule trim_unchanged) (simp_all add: is_white_space_def)
  then have h: "MAX_QUERY_LENGTH < length (trim (replicate 250 0x5F))"
    by (simp add: MAX_QUERY_LENGTH_def)
  from validateSearchQuery_truncates [OF h] h show ?thesis
    by (simp add: t MAX_QUERY_LENGTH_def strip_control_def is_control_def escape_like_def)
qed

text \<open>
  Claim C5, amended. The validator judges the string it has decoded and trimmed: for every
  non-empty string whose percent-decoded (raw when decoding fails) and trimmed form is
  non-empty, at most 500 code units long and, once control characters are removed, still
  has a character outside the allowed class, the validator rejects with the reason
  "Node ID contains invalid characters".
\<close>

theorem sanitizeNodeId_invalid_characters:
  assumes "raw \<noteq> []"
    and "trim (decode_or_raw raw) \<noteq> []"
    and "length (trim (decode_or_raw raw)) \<le> MAX_ID_LENGTH"
    and "\<not> list_all id_char (strip_control (trim (decode_or_raw raw)))"
  shows "sanitizeNodeId (JSString raw) =
     \<lparr>valid = False, sanitized = [],
      error = Some (lit ''Node ID contains invalid characters'')\<rparr>"
  using assms by (simp add: sanitizeNodeId_def sanitize_decoded_def id_regex_test_def)

theorem sanitizeNodeId_invalid_characters_witness:
  "lit ''node; DROP TABLE'' \<noteq> [] \<and>
   trim (decode_or_raw (lit ''node; DROP TABLE'')) = lit ''node; DROP TABLE'' \<and>
   \<not> list_all id_char (strip_control (lit ''node; DROP TABLE'')) \<and>
   sanitizeNodeId (JSString (lit ''node; DROP TABLE'')) =
     \<lparr>valid = False, sanitized = [],
      error = Some (lit ''Node ID contains invalid characters'')\<rparr>"
proof -
  have t: "trim (decode_or_raw (lit ''node; DROP TABLE'')) = lit ''node; DROP TABLE''"
    by (simp add: decode_or_raw_def lit_def trim_def is_white_space_def)
  have b: "\<not> list_all id_char (strip_control (lit ''node; DROP TABLE''))"
    by (simp add: lit_def strip_control_def is_control_def id_char_def)
  have n: "lit ''node; DROP TABLE'' \<noteq> []"
    by (simp add: lit_def)
  have l: "length (lit ''node; DROP TABLE'') \<le> MAX_ID_LENGTH"
    by (simp add: lit_def MAX_ID_LENGTH_def)
  from sanitizeNodeId_invalid_characters [of "lit ''node; DROP TABLE''"] t b n l
  show ?thesis by simp
qed

text \<open>
  Claim C5 as stated fails: the string \<open>" a"\<close> contains a space, which is outside the
  allowed class, and the validator accepts it (as \<open>"a"\<close>), because it trims first.
\<close>

theorem sanitizeNodeId_invalid_characters_counterexample:
  "\<not> id_char 0x20 \<and> 0x20 \<in> set (lit '' a'') \<and>
   sanitizeNodeId (JSString (lit '' a'')) = \<lparr>valid = True, sanitized = lit ''a'', error = None\<rparr>"
  by (simp add: validator_defs)


section \<open>Properties of GET /function/graph\<close>

lemmas graph_defs = function_graph_handler_def neighborhoodStmt_def caller_rows_def callee_rows_def
  neighbor_def order_key_def functionStmt_def anyNodeStmt_def collect_node_ids_def set_add_def
  format_nodes_def limit_node_ids_def edgesStmt_def format_edges_def validation_error_def js_or_def
  MAX_NODES_IN_GRAPH_def fn_node_def call_edge_def enumerate_eq_zip

lemma chain_rows: "neighborhoodStmt chain_store (lit ''f'') = [neighbor ''callee'' (fn_node ''b'' ''b''), neighbor ''caller'' (fn_node ''a'' ''a'')]"
  by (simp add: chain_store_def graph_defs lit_def)

lemma sanitize_f: "sanitizeNodeId (JSString (lit ''f'')) = \<lparr>valid = True, sanitized = lit ''f'', error = None\<rparr>"
  by (simp add: validator_defs)

lemma chain_reply: "function_graph_handler chain_store (JSString (lit ''f'')) = 
  GraphSent \<lparr>resp_nodes = [\<lparr>node_id = lit ''f'', node_label = lit ''f''\<rparr>, \<lparr>node_id = lit ''b'', node_label = lit ''b''\<rparr>,
     \<lparr>node_id = lit ''a'', node_label = lit ''a''\<rparr>],
    resp_edges = [\<lparr>edge_id = lit ''edge-0'', edge_source = lit ''a'', edge_target = lit ''f''\<rparr>,
      \<lparr>edge_id = lit ''edge-1'', edge_source = lit ''f'', edge_target = lit ''b''\<rparr>]\<rparr>"
  by (simp add: function_graph_handler_def sanitize_f chain_rows)
     (simp add: chain_store_def graph_defs lit_def decimal.simps Let_def)

lemma sorted_partition:
  assumes "sorted (map k xs)"
    and "\<And>x y. x \<in> set xs \<Longrightarrow> y \<in> set xs \<Longrightarrow> P x \<Longrightarrow> \<not> P y \<Longrightarrow> k x < k y"
  shows "xs = filter P xs @ filter (\<lambda>x. \<not> P x) xs"
  using assms
proof (induction xs)
  case Nil
  then show ?case by simp
next
  case (Cons x xs)
  have tail: "xs = filter P xs @ filter (\<lambda>x. \<not> P x) xs"
    using Cons by simp
  show ?case
  proof (cases "P x")
    case True
    then show ?thesis using tail by simp
  next
    case False
    have "\<not> P y" if "y \<in> set xs" for y
    proof
      assume "P y"
      then have "k y < k x" using Cons.prems(2) [of y x] that False by simp
      moreover have "k x \<le> k y" using Cons.prems(1) that by simp
      ultimately show False by simp
    qed
    then have "filter P xs = []" "filter (\<lambda>x. \<not> P x) xs = xs"
      by (simp_all add: filter_empty_conv filter_id_conv)
    then show ?thesis using False by simp
  qed
qed

lemma sorted_second_key:
  assumes "sorted (map (\<lambda>x. (a x, b x)) xs)" and "\<And>x. x \<in> set xs \<Longrightarrow> a x = c"
  shows "sorted (map b xs)"
  using assms by (induction xs) auto

lemma neighborhood_directions:
  "r \<in> set (neighborhoodStmt db fid) \<Longrightarrow> is_caller r \<noteq> is_callee r"
  by (auto simp: neighborhoodStmt_def caller_rows_def callee_rows_def neighbor_def
      is_caller_def is_callee_def lit_def)

lemma callee_key_less_caller_key:
  "is_callee x \<Longrightarrow> is_caller y \<Longrightarrow> order_key x < order_key y"
  by (simp add: is_callee_def is_caller_def order_key_def lit_def)

lemma neighborhood_sorted: "sorted (map order_key (neighborhoodStmt db fid))"
  by (simp add: neighborhoodStmt_def)

lemma neighborhood_callees_first: "callees_first (neighborhoodStmt db fid)"
proof -
  let ?rows = "neighborhoodStmt db fid"
  have "?rows = filter is_callee ?rows @ filter (\<lambda>r. \<not> is_callee r) ?rows"
  proof (rule sorted_partition [where k = order_key])
    show "sorted (map order_key ?rows)" by (rule neighborhood_sorted)
  next
    fix x y
    assume "x \<in> set ?rows" "y \<in> set ?rows" "is_callee x" "\<not> is_callee y"
    then show "order_key x < order_key y"
      using neighborhood_directions [of y db fid] callee_key_less_caller_key by auto
  qed
  moreover have "filter (\<lambda>r. \<not> is_callee r) ?rows = filter is_caller ?rows"
    by (rule filter_cong) (use neighborhood_directions in auto)
  ultimately show ?thesis by (simp add: callees_first_def)
qed

lemma neighborhood_sorted_within:
  "sorted (map name_key (filter (\<lambda>r. direction r = d) (neighborhoodStmt db fid)))"
proof -
  have "sorted (map order_key (filter (\<lambda>r. direction r = d) (neighborhoodStmt db fid)))"
    using neighborhood_sorted by (rule sorted_filter)
  then have "sorted (map (\<lambda>r. (code_points (direction r), name_key r))
      (filter (\<lambda>r. direction r = d) (neighborhoodStmt db fid)))"
    by (simp add: order_key_def [abs_def] name_key_def [abs_def])
  then show ?thesis
    by (rule sorted_second_key [where c = "code_points d"]) simp
qed

lemma foldl_set_add_nonempty: "s \<noteq> [] \<Longrightarrow> foldl set_add s xs \<noteq> []"
  by (induction xs arbitrary: s) (simp_all add: set_add_def)

lemma collect_node_ids_nonempty: "collect_node_ids functionRow rows \<noteq> []"
  unfolding collect_node_ids_def by (rule foldl_set_add_nonempty) (simp add: set_add_def)

lemma handler_sent_cases:
  assumes "function_graph_handler db q = GraphSent resp"
  obtains functionRow where "valid (sanitizeNodeId q)"
    "functionStmt db (sanitized (sanitizeNodeId q)) = Some functionRow"
    "resp_nodes resp = format_nodes functionRow (neighborhoodStmt db (sanitized (sanitizeNodeId q)))"
    "resp_edges resp = format_edges (edgesStmt db (limit_node_ids
        (collect_node_ids functionRow (neighborhoodStmt db (sanitized (sanitizeNodeId q))))))"
proof -
  have nf: "\<not> falsy q"
  proof
    assume "falsy q"
    then have "function_graph_handler db q = GraphError 400 (lit ''Node ID is required'')"
      by (simp add: function_graph_handler_def sanitizeNodeId_def validation_error_def js_or_def lit_def)
    with assms show False by simp
  qed
  from assms nf have v: "valid (sanitizeNodeId q)"
    by (auto simp: function_graph_handler_def Let_def split: if_splits)
  from assms nf v obtain functionRow where f: "functionStmt db (sanitized (sanitizeNodeId q)) = Some functionRow"
    by (auto simp: function_graph_handler_def Let_def split: if_splits option.splits)
  have ne: "collect_node_ids functionRow rows \<noteq> []" for rows
    by (rule collect_node_ids_nonempty)
  from assms nf v f ne have "resp = \<lparr>resp_nodes = format_nodes functionRow (neighborhoodStmt db (sanitized (sanitizeNodeId q))),
     resp_edges = format_edges (edgesStmt db (limit_node_ids
        (collect_node_ids functionRow (neighborhoodStmt db (sanitized (sanitizeNodeId q))))))\<rparr>"
    by (auto simp: function_graph_handler_def Let_def split: if_splits)
  then show ?thesis using that v f by simp
qed

text \<open>
  Claim C2, amended. For every successful request the direction-tagged rows are ordered
  with all callee rows before all caller rows (\<open>'callee'\<close> sorts before \<open>'caller'\<close>), and
  within each direction by name under the default collation, a missing name first; the
  neighbor entries of the response follow the target node in that same order.
\<close>

theorem neighborhood_rows_ordered:
  assumes "function_graph_handler db q = GraphSent resp"
  shows "callees_first (neighborhoodStmt db (sanitized (sanitizeNodeId q))) \<and>
    sorted (map name_key (filter is_callee (neighborhoodStmt db (sanitized (sanitizeNodeId q))))) \<and>
    sorted (map name_key (filter is_caller (neighborhoodStmt db (sanitized (sanitizeNodeId q))))) \<and>
    map node_id (tl (resp_nodes resp)) =
      map row_id (neighborhoodStmt db (sanitized (sanitizeNodeId q)))"
proof -
  from assms obtain functionRow where
    "resp_nodes resp = format_nodes functionRow (neighborhoodStmt db (sanitized (sanitizeNodeId q)))"
    by (rule handler_sent_cases)
  then have "map node_id (tl (resp_nodes resp)) =
      map row_id (neighborhoodStmt db (sanitized (sanitizeNodeId q)))"
    by (simp add: format_nodes_def comp_def)
  then show ?thesis
    using neighborhood_callees_first neighborhood_sorted_within [of "lit ''callee''"]
      neighborhood_sorted_within [of "lit ''caller''"]
    by (simp add: is_callee_def [abs_def] is_caller_def [abs_def])
qed

theorem neighborhood_rows_ordered_witness:
  "function_graph_handler chain_store (JSString (lit ''f'')) =
     GraphSent
       \<lparr>resp_nodes =
          [\<lparr>node_id = lit ''f'', node_label = lit ''f''\<rparr>,
           \<lparr>node_id = lit ''b'', node_label = lit ''b''\<rparr>,
           \<lparr>node_id = lit ''a'', node_label = lit ''a''\<rparr>],
        resp_edges =
          [\<lparr>edge_id = lit ''edge-0'', edge_source = lit ''a'', edge_target = lit ''f''\<rparr>,
           \<lparr>edge_id = lit ''edge-1'', edge_source = lit ''f'', edge_target = lit ''b''\<rparr>]\<rparr> \<and>
   callees_first (neighborhoodStmt chain_store (lit ''f''))"
  using neighborhood_rows_ordered [OF chain_reply] chain_reply
  by (simp add: sanitize_f)

text \<open>
  Claim C2 as stated (all caller rows before all callee rows) fails: for \<open>a \<rightarrow> f \<rightarrow> b\<close> the
  request for \<open>f\<close> lists the callee \<open>b\<close> before the caller \<open>a\<close>.
\<close>

theorem callers_first_counterexample:
  "function_graph_handler chain_store (JSString (lit ''f'')) =
     GraphSent
       \<lparr>resp_nodes =
          [\<lparr>node_id = lit ''f'', node_label = lit ''f''\<rparr>,
           \<lparr>node_id = lit ''b'', node_label = lit ''b''\<rparr>,
           \<lparr>node_id = lit ''a'', node_label = lit ''a''\<rparr>],
        resp_edges =
          [\<lparr>edge_id = lit ''edge-0'', edge_source = lit ''a'', edge_target = lit ''f''\<rparr>,
           \<lparr>edge_id = lit ''edge-1'', edge_source = lit ''f'', edge_target = lit ''b''\<rparr>]\<rparr> \<and>
   neighborhoodStmt chain_store (lit ''f'') =
     [neighbor ''callee'' (fn_node ''b'' ''b''), neighbor ''caller'' (fn_node ''a'' ''a'')] \<and>
   \<not> callers_first (neighborhoodStmt chain_store (lit ''f''))"
proof -
  have "\<not> callers_first (neighborhoodStmt chain_store (lit ''f''))"
    unfolding chain_rows callers_first_def
    by (simp add: is_caller_def is_callee_def neighbor_def lit_def)
  then show ?thesis
    using chain_reply chain_rows by simp
qed

lemma mutual_rows: "neighborhoodStmt mutual_store (lit ''f'') =
    [neighbor ''callee'' (fn_node ''g'' ''g''), neighbor ''caller'' (fn_node ''g'' ''g'')]"
  by (simp add: mutual_store_def graph_defs lit_def)

lemma recursive_rows: "neighborhoodStmt recursive_store (lit ''f'') =
    [neighbor ''callee'' (fn_node ''f'' ''f''), neighbor ''caller'' (fn_node ''f'' ''f'')]"
  by (simp add: recursive_store_def graph_defs lit_def)

text \<open>
  Claim C3 (no two entries of the returned node list share an id) against the code. The
  node list gets one entry per neighborhood row; only the id set for the edge statement is
  deduplicated. For \<open>f \<rightarrow> g\<close>, \<open>g \<rightarrow> f\<close> the request for \<open>f\<close> returns \<open>g\<close> twice (callee and caller),
  and for a recursive \<open>f \<rightarrow> f\<close> it returns \<open>f\<close> three times.
\<close>

theorem graph_node_ids_repeat:
  "function_graph_handler mutual_store (JSString (lit ''f'')) =
     GraphSent
       \<lparr>resp_nodes =
          [\<lparr>node_id = lit ''f'', node_label = lit ''f''\<rparr>,
           \<lparr>node_id = lit ''g'', node_label = lit ''g''\<rparr>,
           \<lparr>node_id = lit ''g'', node_label = lit ''g''\<rparr>],
        resp_edges =
          [\<lparr>edge_id = lit ''edge-0'', edge_source = lit ''f'', edge_target = lit ''g''\<rparr>,
           \<lparr>edge_id = lit ''edge-1'', edge_source = lit ''g'', edge_target = lit ''f''\<rparr>]\<rparr> \<and>
   function_graph_handler recursive_store (JSString (lit ''f'')) =
     GraphSent
       \<lparr>resp_nodes =
          [\<lparr>node_id = lit ''f'', node_label = lit ''f''\<rparr>,
           \<lparr>node_id = lit ''f'', node_label = lit ''f''\<rparr>,
           \<lparr>node_id = lit ''f'', node_label = lit ''f''\<rparr>],
        resp_edges =
          [\<lparr>edge_id = lit ''edge-0'', edge_source = lit ''f'', edge_target = lit ''f''\<rparr>]\<rparr>"
proof -
  have "function_graph_handler mutual_store (JSString (lit ''f'')) =
     GraphSent
       \<lparr>resp_nodes =
          [\<lparr>node_id = lit ''f'', node_label = lit ''f''\<rparr>,
           \<lparr>node_id = lit ''g'', node_label = lit ''g''\<rparr>,
           \<lparr>node_id = lit ''g'', node_label = lit ''g''\<rparr>],
        resp_edges =
          [\<lparr>edge_id = lit ''edge-0'', edge_source = lit ''f'', edge_target = lit ''g''\<rparr>,
           \<lparr>edge_id = lit ''edge-1'', edge_source = lit ''g'', edge_target = lit ''f''\<rparr>]\<rparr>"
    by (simp add: function_graph_handler_def sanitize_f mutual_rows)
       (simp add: mutual_store_def graph_defs lit_def decimal.simps Let_def)
  moreover have "function_graph_handler recursive_store (JSString (lit ''f'')) =
     GraphSent
       \<lparr>resp_nodes =
          [\<lparr>node_id = lit ''f'', node_label = lit ''f''\<rparr>,
           \<lparr>node_id = lit ''f'', node_label = lit ''f''\<rparr>,
           \<lparr>node_id = lit ''f'', node_label = lit ''f''\<rparr>],
        resp_edges =
          [\<lparr>edge_id = lit ''edge-0'', edge_source = lit ''f'', edge_target = lit ''f''\<rparr>]\<rparr>"
    by (simp add: function_graph_handler_def sanitize_f recursive_rows)
       (simp add: recursive_store_def graph_defs lit_def decimal.simps Let_def)
  ultimately show ?thesis by simp
qed

lemma find_by_key:
  "distinct (map f xs) \<Longrightarrow> x \<in> set xs \<Longrightarrow> find (\<lambda>y. f y = f x) xs = Some x"
  by (induction xs) (auto simp: image_iff)

lemma find_key_unique:
  "distinct (map f xs) \<Longrightarrow> x \<in> set xs \<Longrightarrow> find (\<lambda>y. f y = f x \<and> P y) xs = (if P x then Some x else None)"
  by (induction xs) (auto simp: image_iff find_None_iff)

lemma valid_not_falsy: "valid (sanitizeNodeId q) \<Longrightarrow> \<not> falsy q"
  by (auto simp: sanitizeNodeId_def)

lemma handler_not_function:
  assumes "valid (sanitizeNodeId q)" and "functionStmt db (sanitized (sanitizeNodeId q)) = None"
  shows "function_graph_handler db q =
    (case anyNodeStmt db (sanitized (sanitizeNodeId q)) of
       Some anyNode \<Rightarrow> GraphError 400
           (lit ''Node exists but is not a function (kind: '' @ n_kind anyNode @ lit '')'')
     | None \<Rightarrow> GraphError 404 (lit ''Function not found: '' @ sanitized (sanitizeNodeId q)))"
  using assms valid_not_falsy [OF assms(1)]
  by (simp add: function_graph_handler_def Let_def)

text \<open>
  Claim C6. For a validated id: when no node has that id, the reply is the not-found error
  (status 404); when a node has that id (ids are unique in the store) and its kind is not
  \<open>function\<close>, the reply is a different error (status 400) whose message names that node's
  kind; and whenever some node has that id the reply is never the 404 error.
\<close>

theorem graph_not_found_or_wrong_kind:
  assumes "valid (sanitizeNodeId q)"
  shows "((\<forall>n \<in> set (db_nodes db). n_id n \<noteq> sanitized (sanitizeNodeId q)) \<longrightarrow>
            function_graph_handler db q =
              GraphError 404 (lit ''Function not found: '' @ sanitized (sanitizeNodeId q))) \<and>
         (distinct (map n_id (db_nodes db)) \<and> n \<in> set (db_nodes db) \<and>
          n_id n = sanitized (sanitizeNodeId q) \<and> n_kind n \<noteq> lit ''function'' \<longrightarrow>
            function_graph_handler db q =
              GraphError 400
                (lit ''Node exists but is not a function (kind: '' @ n_kind n @ lit '')'')) \<and>
         ((\<exists>m \<in> set (db_nodes db). n_id m = sanitized (sanitizeNodeId q)) \<longrightarrow>
            (\<forall>msg. function_graph_handler db q \<noteq> GraphError 404 msg))"
proof (intro conjI impI)
  assume none: "\<forall>n \<in> set (db_nodes db). n_id n \<noteq> sanitized (sanitizeNodeId q)"
  then have "functionStmt db (sanitized (sanitizeNodeId q)) = None"
    and "anyNodeStmt db (sanitized (sanitizeNodeId q)) = None"
    by (auto simp: functionStmt_def anyNodeStmt_def find_None_iff)
  then show "function_graph_handler db q =
      GraphError 404 (lit ''Function not found: '' @ sanitized (sanitizeNodeId q))"
    using handler_not_function [OF assms] by simp
next
  assume a: "distinct (map n_id (db_nodes db)) \<and> n \<in> set (db_nodes db) \<and>
    n_id n = sanitized (sanitizeNodeId q) \<and> n_kind n \<noteq> lit ''function''"
  then have "functionStmt db (n_id n) = None" and "anyNodeStmt db (n_id n) = Some n"
    using find_key_unique [of n_id "db_nodes db" n "\<lambda>y. n_kind y = lit ''function''"]
      find_by_key [of n_id "db_nodes db" n]
    by (simp_all add: functionStmt_def anyNodeStmt_def)
  then show "function_graph_handler db q =
      GraphError 400 (lit ''Node exists but is not a function (kind: '' @ n_kind n @ lit '')'')"
    using handler_not_function [OF assms] a by simp
next
  assume "\<exists>m \<in> set (db_nodes db). n_id m = sanitized (sanitizeNodeId q)"
  then have some: "anyNodeStmt db (sanitized (sanitizeNodeId q)) \<noteq> None"
    by (auto simp: anyNodeStmt_def find_None_iff)
  show "\<forall>msg. function_graph_handler db q \<noteq> GraphError 404 msg"
  proof (cases "functionStmt db (sanitized (sanitizeNodeId q))")
    case None
    then show ?thesis
      using handler_not_function [OF assms] some by (auto split: option.splits)
  next
    case (Some functionRow)
    then show ?thesis
      using assms valid_not_falsy [OF assms]
      by (simp add: function_graph_handler_def Let_def)
  qed
qed

lemma sanitize_T: "sanitizeNodeId (JSString (lit ''pkg::T'')) = \<lparr>valid = True, sanitized = lit ''pkg::T'', error = None\<rparr>"
  by (simp add: validator_defs)

lemma sanitize_nope: "sanitizeNodeId (JSString (lit ''nope'')) = \<lparr>valid = True, sanitized = lit ''nope'', error = None\<rparr>"
  by (simp add: validator_defs)

theorem graph_not_found_or_wrong_kind_witness:
  "function_graph_handler kinds_store (JSString (lit ''nope'')) =
     GraphError 404 (lit ''Function not found: nope'') \<and>
   function_graph_handler kinds_store (JSString (lit ''pkg::T'')) =
     GraphError 400 (lit ''Node exists but is not a function (kind: type)'')"
proof -
  have v1: "valid (sanitizeNodeId (JSString (lit ''nope'')))"
    by (simp add: sanitize_nope)
  have v2: "valid (sanitizeNodeId (JSString (lit ''pkg::T'')))"
    by (simp add: sanitize_T)
  have h1: "\<forall>n \<in> set (db_nodes kinds_store). n_id n \<noteq> sanitized (sanitizeNodeId (JSString (lit ''nope'')))"
    unfolding sanitize_nope by (simp add: kinds_store_def fn_node_def typed_node_def lit_def)
  have h2: "distinct (map n_id (db_nodes kinds_store)) \<and>
      typed_node ''pkg::T'' ''type'' \<in> set (db_nodes kinds_store) \<and>
      n_id (typed_node ''pkg::T'' ''type'') = sanitized (sanitizeNodeId (JSString (lit ''pkg::T''))) \<and>
      n_kind (typed_node ''pkg::T'' ''type'') \<noteq> lit ''function''"
    unfolding sanitize_T by (simp add: kinds_store_def fn_node_def typed_node_def lit_def)
  from graph_not_found_or_wrong_kind [OF v1, of kinds_store] h1
  have r1: "function_graph_handler kinds_store (JSString (lit ''nope'')) =
     GraphError 404 (lit ''Function not found: '' @ lit ''nope'')"
    by (simp add: sanitize_nope)
  from graph_not_found_or_wrong_kind [OF v2, of kinds_store "typed_node ''pkg::T'' ''type''"] h2
  have r2: "function_graph_handler kinds_store (JSString (lit ''pkg::T'')) =
     GraphError 400 (lit ''Node exists but is not a function (kind: '' @ lit ''type'' @ lit '')'')"
    by (simp add: typed_node_def)
  from r1 r2 show ?thesis by (simp add: lit_def)
qed

lemma plain_function_sel [simp]:
  "n_id (plain_function i) = i" "n_kind (plain_function i) = lit ''function''"
  "n_name (plain_function i) = None"
  by (simp_all add: plain_function_def)

lemma caller_id_inj: "caller_id i = caller_id j \<longleftrightarrow> i = j"
proof
  assume "caller_id i = caller_id j"
  then have "length (caller_id i) = length (caller_id j)" by simp
  then show "i = j" by (simp add: caller_id_def)
qed simp

lemma caller_id_not_f: "caller_id i \<noteq> lit ''f''"
  by (simp add: caller_id_def lit_def)

lemma select_index:
  "i < k \<Longrightarrow> concat (map (\<lambda>j. if j = i then [g j] else []) [0..<k]) = [g i]"
proof (induction k)
  case 0
  then show ?case by simp
next
  case (Suc k)
  show ?case
  proof (cases "i = k")
    case True
    have "concat (map (\<lambda>j. if j = k then [g j] else []) [0..<k]) = []"
      by simp
    then show ?thesis using True by simp
  next
    case False
    then have "i < k" using Suc.prems by simp
    then show ?thesis using Suc.IH False by simp
  qed
qed

lemma fan_in_callers:
  "caller_rows (fan_in_store k) (lit ''f'') =
     map (\<lambda>i. neighbor ''caller'' (plain_function (caller_id i))) [0..<k]"
proof -
  have inner: "concat (map (\<lambda>n. if n_id n = caller_id i \<and> n_kind n = lit ''function''
                                  then [neighbor ''caller'' n] else [])
                 (db_nodes (fan_in_store k))) = [neighbor ''caller'' (plain_function (caller_id i))]"
    if "i < k" for i
  proof -
    have "concat (map (\<lambda>n. if n_id n = caller_id i \<and> n_kind n = lit ''function''
                                  then [neighbor ''caller'' n] else [])
                 (db_nodes (fan_in_store k))) =
          concat (map (\<lambda>j. if j = i then [neighbor ''caller'' (plain_function (caller_id j))] else [])
                 [0..<k])"
      using caller_id_not_f [of i]
      by (simp add: fan_in_store_def comp_def caller_id_inj)
    then show ?thesis using select_index [OF that] by simp
  qed
  have "caller_rows (fan_in_store k) (lit ''f'') =
      concat (map (\<lambda>i. concat (map (\<lambda>n. if n_id n = caller_id i \<and> n_kind n = lit ''function''
                                  then [neighbor ''caller'' n] else [])
                 (db_nodes (fan_in_store k)))) [0..<k])"
    by (simp add: caller_rows_def fan_in_store_def comp_def)
  also have "\<dots> = concat (map (\<lambda>i. [neighbor ''caller'' (plain_function (caller_id i))]) [0..<k])"
    by (rule arg_cong [where f = concat], rule map_cong) (simp_all add: inner)
  also have "\<dots> = map (\<lambda>i. neighbor ''caller'' (plain_function (caller_id i))) [0..<k]"
    by simp
  finally show ?thesis .
qed

lemma fan_in_callees: "callee_rows (fan_in_store k) (lit ''f'') = []"
  using caller_id_not_f by (simp add: callee_rows_def fan_in_store_def)

lemma distinct_map_sort_key:
  "distinct (map f (sort_key k xs)) = distinct (map f xs)"
  by (simp add: distinct_map)

lemma fan_in_row_ids:
  "length (neighborhoodStmt (fan_in_store k) (lit ''f'')) = k \<and>
   distinct (map row_id (neighborhoodStmt (fan_in_store k) (lit ''f''))) \<and>
   lit ''f'' \<notin> row_id ` set (neighborhoodStmt (fan_in_store k) (lit ''f''))"
proof -
  have ids: "map row_id (map (\<lambda>i. neighbor ''caller'' (plain_function (caller_id i))) [0..<k]) =
      map caller_id [0..<k]"
    by (simp add: neighbor_def comp_def)
  have "distinct (map caller_id [0..<k])"
    by (simp add: distinct_map inj_on_def caller_id_inj)
  moreover have "lit ''f'' \<notin> set (map caller_id [0..<k])"
  proof
    assume "lit ''f'' \<in> set (map caller_id [0..<k])"
    then obtain i where "caller_id i = lit ''f''" by auto
    then show False using caller_id_not_f by simp
  qed
  ultimately show ?thesis
    unfolding neighborhoodStmt_def fan_in_callers fan_in_callees
    by (simp only: distinct_map_sort_key append_Nil2 length_sort length_map length_upt ids
        set_sort image_set)
       simp
qed

lemma lit_f_nonempty: "lit ''f'' \<noteq> []"
  by (simp add: lit_def)

lemma fan_in_function: "functionStmt (fan_in_store k) (lit ''f'') = Some (plain_function (lit ''f''))"
  by (simp add: functionStmt_def fan_in_store_def)

text \<open>
  Claim C1 (more than 1000 distinct ids: exactly 1000 returned nodes) against the code.
  Only the id array of the edge statement is cut to \<open>MAX_NODES_IN_GRAPH\<close>; the node list is
  sent whole. For a function \<open>f\<close> with 1000 distinct callers the node set has 1001 distinct
  ids and the reply lists all 1001 nodes.
\<close>

theorem graph_node_list_not_capped:
  "\<exists>resp. function_graph_handler (fan_in_store 1000) (JSString (lit ''f'')) = GraphSent resp \<and>
     distinct (map node_id (resp_nodes resp)) \<and>
     length (resp_nodes resp) = 1001"
proof -
  let ?rows = "neighborhoodStmt (fan_in_store 1000) (lit ''f'')"
  let ?f = "plain_function (lit ''f'')"
  let ?resp = "\<lparr>resp_nodes = format_nodes ?f ?rows,
      resp_edges = format_edges (edgesStmt (fan_in_store 1000)
        (limit_node_ids (collect_node_ids ?f ?rows)))\<rparr>"
  have "function_graph_handler (fan_in_store 1000) (JSString (lit ''f'')) = GraphSent ?resp"
    using collect_node_ids_nonempty [of ?f ?rows] lit_f_nonempty
    by (simp add: function_graph_handler_def sanitize_f fan_in_function Let_def)
  moreover have "map node_id (format_nodes ?f ?rows) = lit ''f'' # map row_id ?rows"
    by (simp add: format_nodes_def comp_def)
  then have "distinct (map node_id (resp_nodes ?resp))"
    using fan_in_row_ids [of 1000] by simp
  moreover have "length (resp_nodes ?resp) = 1001"
    using fan_in_row_ids [of 1000] by (simp add: format_nodes_def)
  ultimately show ?thesis by blast
qed

lemma format_edges_endpoints:
  "g \<in> set (format_edges edgeRows) \<Longrightarrow>
     \<exists>e \<in> set edgeRows. edge_source g = e_source e \<and> edge_target g = e_target e"
  by (auto simp: format_edges_def enumerate_eq_zip dest: set_zip_rightD)

lemma graph_edges_within_limited_ids:
  assumes "function_graph_handler db q = GraphSent resp" and "g \<in> set (resp_edges resp)"
  obtains ids where "length ids \<le> MAX_NODES_IN_GRAPH"
    "edge_source g \<in> set ids" "edge_target g \<in> set ids"
proof -
  from assms(1) obtain functionRow where
    e: "resp_edges resp = format_edges (edgesStmt db (limit_node_ids
        (collect_node_ids functionRow (neighborhoodStmt db (sanitized (sanitizeNodeId q))))))"
    by (rule handler_sent_cases)
  let ?ids = "limit_node_ids
        (collect_node_ids functionRow (neighborhoodStmt db (sanitized (sanitizeNodeId q))))"
  have "length ?ids \<le> MAX_NODES_IN_GRAPH"
    by (simp add: limit_node_ids_def)
  moreover from assms(2) e have "edge_source g \<in> set ?ids \<and> edge_target g \<in> set ?ids"
    using format_edges_endpoints [of g "edgesStmt db ?ids"] by (auto simp: edgesStmt_def)
  ultimately show ?thesis using that by blast
qed

section \<open>Properties of GET /source\<close>

lemma split_lines_nonempty: "split_lines s \<noteq> []"
  by (induction s) (auto split: list.splits)

lemma join_split_lines: "join_lines (split_lines s) = s"
proof (induction s)
  case Nil
  show ?case by simp
next
  case (Cons c cs)
  obtain l ls where sp: "split_lines cs = l # ls"
    using split_lines_nonempty [of cs] by (cases "split_lines cs") auto
  show ?case
  proof (cases "c = 0x0A")
    case True
    then show ?thesis using Cons sp by simp
  next
    case False
    then show ?thesis using Cons sp by (cases ls) auto
  qed
qed

lemma take_three:
  assumes "i + 3 \<le> length xs"
  shows "take 3 (drop i xs) = [xs ! i, xs ! (i + 1), xs ! (i + 2)]"
proof -
  have 1: "drop i xs = xs ! i # drop (Suc i) xs"
    using assms by (simp add: Cons_nth_drop_Suc)
  have 2: "drop (Suc i) xs = xs ! (i + 1) # drop (Suc (Suc i)) xs"
    using assms by (simp add: Cons_nth_drop_Suc)
  have 3: "drop (Suc (Suc i)) xs = xs ! (i + 2) # drop (Suc (Suc (Suc i))) xs"
    using assms by (simp add: Cons_nth_drop_Suc)
  show ?thesis
    by (simp add: 1 2 3 numeral_3_eq_3)
qed

lemma take_one:
  assumes "i < length xs"
  shows "take 1 (drop i xs) = [xs ! i]"
  using assms by (simp add: Cons_nth_drop_Suc [symmetric])

lemma extract_code_range:
  assumes "n_line node = Some 10" "n_end_line node = Some 12" "length (split_lines content) = 20"
  shows "extract_code node file content =
    \<lparr>file_name = file, start_line = 10, end_line = 12,
     code = join_lines [split_lines content ! 9, split_lines content ! 10, split_lines content ! 11]\<rparr>"
proof -
  have "js_slice (split_lines content) 9 12 = take 3 (drop 9 (split_lines content))"
    using assms(3) by (simp add: js_slice_def)
  also have "\<dots> = [split_lines content ! 9, split_lines content ! (9 + 1), split_lines content ! (9 + 2)]"
    by (rule take_three) (simp add: assms(3))
  finally show ?thesis
    using assms by (simp add: extract_code_def num_or_def num_or_default_def Let_def)
qed

lemma extract_code_single:
  assumes "n_line node = Some 5" "n_end_line node = None" "5 \<le> length (split_lines content)"
  shows "extract_code node file content =
    \<lparr>file_name = file, start_line = 5, end_line = 5, code = split_lines content ! 4\<rparr>"
proof -
  have "js_slice (split_lines content) 4 5 = take 1 (drop 4 (split_lines content))"
    using assms(3) by (simp add: js_slice_def)
  also have "\<dots> = [split_lines content ! 4]"
    by (rule take_one) (use assms(3) in simp)
  finally show ?thesis
    using assms by (simp add: extract_code_def num_or_def num_or_default_def Let_def)
qed

lemma extract_code_whole:
  assumes "n_line node = None" "n_end_line node = None"
  shows "extract_code node file content =
    \<lparr>file_name = file, start_line = 1, end_line = int (length (split_lines content)),
     code = content\<rparr>"
proof -
  have pos: "int (length (split_lines content)) \<noteq> 0"
    using split_lines_nonempty [of content] by simp
  have "js_slice (split_lines content) 0 (int (length (split_lines content))) = split_lines content"
    by (simp add: js_slice_def)
  then show ?thesis
    using assms pos by (simp add: extract_code_def num_or_def num_or_default_def Let_def join_split_lines)
qed

lemma source_handler_sent:
  assumes "valid (sanitizeNodeId q)"
    and "take 5 (sanitized (sanitizeNodeId q)) \<noteq> lit ''ext::''"
    and "nodeStmt db (sanitized (sanitizeNodeId q)) = Some node"
    and "n_file node = Some file" and "file \<noteq> []"
    and "sourceStmt db file = Some source"
  shows "source_handler db q = SourceSent (extract_code node file (s_content source))"
  using assms valid_not_falsy [OF assms(1)]
  by (simp add: source_handler_def Let_def)

text \<open>
  Claim C7. For a request on a non-external node whose file is in the store: with
  \<open>line = 10\<close> and \<open>end_line = 12\<close> over a file of 20 lines the code is lines 10 to 12 (three
  lines, joined by newlines) and \<open>start_line\<close>/\<open>end_line\<close> are 10/12; with \<open>line = 5\<close> and no
  \<open>end_line\<close> (the file having a fifth line) the code is line 5 alone; with neither, the
  slice runs from line 1 to the last line, which is the whole content.
\<close>

theorem source_line_slices:
  assumes "valid (sanitizeNodeId q)"
    and "take 5 (sanitized (sanitizeNodeId q)) \<noteq> lit ''ext::''"
    and "nodeStmt db (sanitized (sanitizeNodeId q)) = Some node"
    and "n_file node = Some file" and "file \<noteq> []"
    and "sourceStmt db file = Some source"
  shows "(n_line node = Some 10 \<and> n_end_line node = Some 12 \<and>
          length (split_lines (s_content source)) = 20 \<longrightarrow>
            source_handler db q =
              SourceSent
                \<lparr>file_name = file, start_line = 10, end_line = 12,
                 code = join_lines [split_lines (s_content source) ! 9,
                                    split_lines (s_content source) ! 10,
                                    split_lines (s_content source) ! 11]\<rparr>) \<and>
         (n_line node = Some 5 \<and> n_end_line node = None \<and>
          5 \<le> length (split_lines (s_content source)) \<longrightarrow>
            source_handler db q =
              SourceSent
                \<lparr>file_name = file, start_line = 5, end_line = 5,
                 code = split_lines (s_content source) ! 4\<rparr>) \<and>
         (n_line node = None \<and> n_end_line node = None \<longrightarrow>
            source_handler db q =
              SourceSent
                \<lparr>file_name = file, start_line = 1,
                 end_line = int (length (split_lines (s_content source))),
                 code = s_content source\<rparr> \<and>
            s_content source = join_lines (split_lines (s_content source)))"
  using source_handler_sent [OF assms]
  by (auto simp: extract_code_range extract_code_single extract_code_whole join_split_lines)

lemma split_twenty:
  "split_lines twenty_lines =
     [lit ''a'', lit ''b'', lit ''c'', lit ''d'', lit ''e'', lit ''f'', lit ''g'', lit ''h'',
      lit ''i'', lit ''j'', lit ''k'', lit ''l'', lit ''m'', lit ''n'', lit ''o'', lit ''p'',
      lit ''q'', lit ''r'', lit ''s'', lit ''t'']"
  by (simp add: twenty_lines_def lit_def)

lemma sanitize_x: "sanitizeNodeId (JSString (lit ''x'')) = \<lparr>valid = True, sanitized = lit ''x'', error = None\<rparr>"
  by (simp add: validator_defs)

lemma sanitize_y: "sanitizeNodeId (JSString (lit ''y'')) = \<lparr>valid = True, sanitized = lit ''y'', error = None\<rparr>"
  by (simp add: validator_defs)

lemma sanitize_z: "sanitizeNodeId (JSString (lit ''z'')) = \<lparr>valid = True, sanitized = lit ''z'', error = None\<rparr>"
  by (simp add: validator_defs)

lemma source_store_file:
  "sourceStmt source_store (lit ''m.go'') = Some \<lparr>s_file = lit ''m.go'', s_content = twenty_lines\<rparr>"
  by (simp add: sourceStmt_def source_store_def)

lemma source_store_nodes:
  "nodeStmt source_store (lit ''x'') = Some (located_node ''x'' (Some 10) (Some 12))"
  "nodeStmt source_store (lit ''y'') = Some (located_node ''y'' (Some 5) None)"
  "nodeStmt source_store (lit ''z'') = Some (located_node ''z'' None None)"
  by (simp_all add: nodeStmt_def source_store_def located_node_def lit_def)

lemma short_not_external:
  "take 5 (lit ''x'') \<noteq> lit ''ext::''" "take 5 (lit ''y'') \<noteq> lit ''ext::''"
  "take 5 (lit ''z'') \<noteq> lit ''ext::''" "lit ''m.go'' \<noteq> []"
  by (simp_all add: lit_def)

theorem source_line_slices_witness:
  "source_handler source_store (JSString (lit ''x'')) =
     SourceSent \<lparr>file_name = lit ''m.go'', start_line = 10, end_line = 12,
                 code = lit ''j'' @ [0x0A] @ lit ''k'' @ [0x0A] @ lit ''l''\<rparr> \<and>
   source_handler source_store (JSString (lit ''y'')) =
     SourceSent \<lparr>file_name = lit ''m.go'', start_line = 5, end_line = 5, code = lit ''e''\<rparr> \<and>
   source_handler source_store (JSString (lit ''z'')) =
     SourceSent \<lparr>file_name = lit ''m.go'', start_line = 1, end_line = 20, code = twenty_lines\<rparr>"
proof -
  have x: "source_handler source_store (JSString (lit ''x'')) =
     SourceSent \<lparr>file_name = lit ''m.go'', start_line = 10, end_line = 12,
                 code = lit ''j'' @ [0x0A] @ lit ''k'' @ [0x0A] @ lit ''l''\<rparr>"
    using source_line_slices [of "JSString (lit ''x'')" source_store
        "located_node ''x'' (Some 10) (Some 12)" "lit ''m.go''"
        "\<lparr>s_file = lit ''m.go'', s_content = twenty_lines\<rparr>"]
    by (simp add: sanitize_x source_store_nodes source_store_file short_not_external
        located_node_def split_twenty)
  have y: "source_handler source_store (JSString (lit ''y'')) =
     SourceSent \<lparr>file_name = lit ''m.go'', start_line = 5, end_line = 5, code = lit ''e''\<rparr>"
    using source_line_slices [of "JSString (lit ''y'')" source_store
        "located_node ''y'' (Some 5) None" "lit ''m.go''"
        "\<lparr>s_file = lit ''m.go'', s_content = twenty_lines\<rparr>"]
    by (simp add: sanitize_y source_store_nodes source_store_file short_not_external
        located_node_def split_twenty)
  have z: "source_handler source_store (JSString (lit ''z'')) =
     SourceSent \<lparr>file_name = lit ''m.go'', start_line = 1, end_line = 20, code = twenty_lines\<rparr>"
    using source_line_slices [of "JSString (lit ''z'')" source_store
        "located_node ''z'' None None" "lit ''m.go''"
        "\<lparr>s_file = lit ''m.go'', s_content = twenty_lines\<rparr>"]
    by (simp add: sanitize_z source_store_nodes source_store_file short_not_external
        located_node_def split_twenty)
  from x y z show ?thesis by simp
qed

lemma source_handler_external:
  assumes "valid (sanitizeNodeId q)"
    and "take 5 (sanitized (sanitizeNodeId q)) = lit ''ext::''"
  shows "source_handler db q = external_reply (nodeStmt db (sanitized (sanitizeNodeId q)))"
  using assms valid_not_falsy [OF assms(1)]
  by (simp add: source_handler_def Let_def)

text \<open>
  Claim C8, amended. For a validated id that begins with \<open>ext::\<close> the handler never sends
  a code payload; the reply is always a 404 error. It carries the node's display metadata
  (name, package, type signature) when a row for the id exists; when none exists it is the
  bare error "External node - source code not available", with no metadata.
\<close>

theorem source_external_not_found:
  assumes "valid (sanitizeNodeId q)"
    and "take 5 (sanitized (sanitizeNodeId q)) = lit ''ext::''"
  shows "(\<forall>sent. source_handler db q \<noteq> SourceSent sent) \<and>
         (\<exists>body. source_handler db q = SourceError 404 body \<and>
            (case nodeStmt db (sanitized (sanitizeNodeId q)) of
               Some row \<Rightarrow>
                 err_node_info body =
                   Some (ExternalInfo (n_name row) (n_package row) (n_type_info row)) \<and>
                 err_error body = lit ''External function - source code not available''
             | None \<Rightarrow>
                 body = plain_error (lit ''External node - source code not available'')))"
  using source_handler_external [OF assms, of db]
  by (auto simp: external_reply_def split: option.splits)

lemma sanitize_println:
  "sanitizeNodeId (JSString (lit ''ext::fmt.Println'')) =
     \<lparr>valid = True, sanitized = lit ''ext::fmt.Println'', error = None\<rparr>"
  by (simp add: validator_defs)

lemma println_external: "take 5 (lit ''ext::fmt.Println'') = lit ''ext::''"
  by (simp add: lit_def)

lemma println_nonempty: "lit ''ext::fmt.Println'' \<noteq> []"
  by (simp add: lit_def)

theorem source_external_not_found_witness:
  "source_handler ext_store (JSString (lit ''ext::fmt.Println'')) =
     SourceError 404
       \<lparr>err_error = lit ''External function - source code not available'',
        err_message =
          Some (lit ''This is an external function from fmt. Source code is not available in the database.''),
        err_node_info = Some (ExternalInfo (Some (lit ''Println'')) (Some (lit ''fmt'')) (Some (lit ''func''))),
        err_file = None\<rparr>"
proof -
  have v: "valid (sanitizeNodeId (JSString (lit ''ext::fmt.Println'')))"
    by (simp add: sanitize_println)
  have e: "take 5 (sanitized (sanitizeNodeId (JSString (lit ''ext::fmt.Println'')))) = lit ''ext::''"
    by (simp add: sanitize_println println_external)
  have r: "source_handler ext_store (JSString (lit ''ext::fmt.Println'')) =
      external_reply (nodeStmt ext_store (lit ''ext::fmt.Println''))"
    using println_nonempty
    by (simp add: source_handler_def sanitize_println println_external Let_def)
  have "\<exists>body. source_handler ext_store (JSString (lit ''ext::fmt.Println'')) = SourceError 404 body"
    using source_external_not_found [OF v e, of ext_store] by blast
  then show ?thesis
    unfolding r by (simp add: external_reply_def nodeStmt_def ext_store_def js_or_def lit_def)
qed

text \<open>
  Claim C8 as stated (metadata is carried whether or not a row for the id exists) fails: on
  a store without the node, the reply for \<open>ext::fmt.Println\<close> is a 404 error with no metadata.
\<close>

theorem source_external_counterexample:
  "valid (sanitizeNodeId (JSString (lit ''ext::fmt.Println''))) \<and>
   take 5 (sanitized (sanitizeNodeId (JSString (lit ''ext::fmt.Println'')))) = lit ''ext::'' \<and>
   source_handler empty_store (JSString (lit ''ext::fmt.Println'')) =
     SourceError 404
       \<lparr>err_error = lit ''External node - source code not available'', err_message = None,
        err_node_info = None, err_file = None\<rparr>"
proof -
  have "source_handler empty_store (JSString (lit ''ext::fmt.Println'')) =
      external_reply (nodeStmt empty_store (lit ''ext::fmt.Println''))"
    using println_nonempty
    by (simp add: source_handler_def sanitize_println println_external Let_def)
  then show ?thesis
    by (simp add: sanitize_println println_external external_reply_def nodeStmt_def
        empty_store_def plain_error_def)
qed

end
